theory Spec2Isabelle
  imports Complex_Main
begin

section \<open>Data model\<close>

text \<open>
  The program is \<^verbatim>\<open>src/main.py\<close>: \<^verbatim>\<open>CodeAnalyzer.analyze\<close> builds a structure
  dictionary from tree-sitter captures, \<^verbatim>\<open>RefactorSuggester.suggest\<close> asks a language
  model for a JSON suggestion, \<^verbatim>\<open>ArchitectureVisualizer\<close> draws graphs, and
  \<^verbatim>\<open>main\<close> runs the three in sequence.

  Python dictionaries keep insertion order, and the order is observable (iteration in
  \<^verbatim>\<open>generate_from_structure\<close>, \<^verbatim>\<open>json.dumps\<close>), so a dictionary is an association
  list in insertion order. Assigning to a key that is present replaces the value in
  place; assigning to a new key appends.
\<close>

type_synonym ('k, 'v) dict = "('k \<times> 'v) list"

primrec dict_set :: "'k \<Rightarrow> 'v \<Rightarrow> ('k, 'v) dict \<Rightarrow> ('k, 'v) dict" where
  "dict_set k v [] = [(k, v)]"
| "dict_set k v (p # ps) = (if fst p = k then (k, v) # ps else p # dict_set k v ps)"

definition dict_keys :: "('k, 'v) dict \<Rightarrow> 'k list" where
  "dict_keys d = map fst d"

definition dict_has :: "'k \<Rightarrow> ('k, 'v) dict \<Rightarrow> bool" where
  "dict_has k d = (k \<in> set (dict_keys d))"

text \<open>
  A capture is what the loops of \<^verbatim>\<open>analyze\<close> read from each \<^verbatim>\<open>(node, name)\<close> pair:
  \<^verbatim>\<open>node.text.decode('utf8')\<close> and the capture name.
\<close>

type_synonym capture = "string \<times> string"

text \<open>
  A Python \<^verbatim>\<open>str\<close> whose characters matter one by one (the answer of the language
  model, which \<^verbatim>\<open>strip\<close> inspects) is the list of its Unicode code points. Names and
  paths, which are only compared and concatenated, are \<open>string\<close>s.
\<close>

type_synonym unicode = "nat list"

definition py_str :: "string \<Rightarrow> unicode" where
  "py_str s = map of_char s"

text \<open>
  A function entry is the dictionary \<^verbatim>\<open>{"calls": [...]}\<close>; the structure is
  \<^verbatim>\<open>{"functions": {...}, "classes": {}, "global_calls": []}\<close>. The field
  \<open>functions_map\<close> is the key \<^verbatim>\<open>"functions"\<close> (the plain name is reserved in
  Isabelle).
\<close>

type_synonym entry = "(string, string list) dict"

record code_structure =
  functions_map :: "(string, entry) dict"
  classes :: "(string, entry) dict"
  global_calls :: "string list"

text \<open>JSON values as \<^verbatim>\<open>json.loads\<close> returns them; \<open>JNull\<close> is Python's \<^verbatim>\<open>None\<close>.\<close>

datatype json =
    JNull
  | JBool bool
  | JNum real
  | JStr string
  | JList "json list"
  | JObj "(string \<times> json) list"

text \<open>Python truthiness, as \<^verbatim>\<open>if not suggestion\<close> and \<^verbatim>\<open>if dot_string\<close> test it.\<close>

fun truthy :: "json \<Rightarrow> bool" where
  "truthy JNull = False"
| "truthy (JBool b) = b"
| "truthy (JNum x) = (x \<noteq> 0)"
| "truthy (JStr s) = (s \<noteq> [])"
| "truthy (JList xs) = (xs \<noteq> [])"
| "truthy (JObj kvs) = (kvs \<noteq> [])"

text \<open>
  The exceptions that occur. \<open>SystemExit\<close> and \<open>KeyboardInterrupt\<close> derive from
  \<^verbatim>\<open>BaseException\<close> only; every other one is a subclass of \<^verbatim>\<open>Exception\<close>.
  \<open>SyntaxError n\<close> is the error of the tree-sitter binding for a query text that is
  invalid at offset \<open>n\<close>.
\<close>

datatype py_exn =
    FileNotFoundError
  | PermissionError
  | UnicodeDecodeError
  | KeyError string
  | AttributeError string
  | ExecutableNotFound
  | CalledProcessError string
  | SyntaxError nat
  | JSONDecodeError
  | RecursionError
  | OtherException string
  | SystemExit int
  | KeyboardInterrupt

fun is_Exception :: "py_exn \<Rightarrow> bool" where
  "is_Exception (SystemExit _) = False"
| "is_Exception KeyboardInterrupt = False"
| "is_Exception _ = True"

text \<open>
  The graph objects of the \<^verbatim>\<open>graphviz\<close> package. A \<^verbatim>\<open>Digraph\<close> keeps its statements
  in the list \<^verbatim>\<open>body\<close>: each of \<^verbatim>\<open>attr\<close>, \<^verbatim>\<open>node\<close> and \<^verbatim>\<open>edge\<close> appends one
  line to it. A \<^verbatim>\<open>Source\<close> wraps a given DOT text.
\<close>

datatype stmt =
    Attr_stmt "string option" "(string \<times> string) list"
  | Node_stmt string string
  | Edge_stmt string string

record digraph =
  name :: string
  comment :: string
  body :: "stmt list"

datatype graph = Digraph digraph | Source json

text \<open>\<^verbatim>\<open>self.output_dir / filename\<close>: the directory and the file name.\<close>

type_synonym path = "string \<times> string"

text \<open>
  What a run does to the outside: every \<^verbatim>\<open>print\<close>, the call of the language model
  and the call of the renderer, in the order they happen.
\<close>

datatype event =
    Print_analyzing string
  | Print_language_error py_exn
  | Print_file_not_found string
  | Print_structure code_structure
  | Print_generating_before
  | Print_no_functions
  | Render_call graph path
  | Print_diagram_saved path
  | Print_graphviz_missing
  | Print_render_error py_exn
  | Print_ollama_error string py_exn
  | Print_asking
  | Chain_invoke code_structure
  | Print_decode_error unicode
  | Print_no_suggestion
  | Print_suggestion_header
  | Print_summary json
  | Print_reasoning_header
  | Print_point json
  | Print_reasoning json
  | Print_rule
  | Print_generating_after
  | Print_dot_error py_exn json
  | Print_no_dot_warning

text \<open>
  The collaborators outside the program, one field per library call:
  \<^item> \<open>get_language\<close>: \<^verbatim>\<open>get_language('python')\<close>, the exception it raises if any;
  \<^item> \<open>read_file\<close>: \<^verbatim>\<open>open(file_path, 'r', encoding='utf-8')\<close> and \<^verbatim>\<open>f.read()\<close>;
  \<^item> \<open>query_error\<close>: the exception, if any, that \<^verbatim>\<open>self.language.query\<close> raises for
    a query text, beyond the syntax error modelled below;
  \<^item> \<open>captures\<close>: \<^verbatim>\<open>parser.parse\<close> of the text followed by \<^verbatim>\<open>query.captures\<close> of a
    compiled query, as (text, capture name) pairs in the order returned;
  \<^item> \<open>mkdir\<close>: \<^verbatim>\<open>self.output_dir.mkdir(exist_ok=True)\<close>;
  \<^item> \<open>chat_ollama\<close>: \<^verbatim>\<open>ChatOllama(model=model_name)\<close>;
  \<^item> \<open>chain_invoke\<close>: \<^verbatim>\<open>json.dumps\<close> of the structure followed by
    \<^verbatim>\<open>self.chain.invoke\<close>;
  \<^item> \<open>json_loads\<close>: \<^verbatim>\<open>json.loads\<close>, its value or the exception it raises
    (\<^verbatim>\<open>JSONDecodeError\<close>, or \<^verbatim>\<open>RecursionError\<close> on deep nesting);
  \<^item> \<open>source_new\<close>: \<^verbatim>\<open>graphviz.Source(dot_string)\<close>;
  \<^item> \<open>render\<close>: \<^verbatim>\<open>graph.render(output_path, format='png', cleanup=True)\<close>;
  \<^item> \<open>path_stem\<close>: \<^verbatim>\<open>Path(file_path).stem\<close>.
\<close>

record env =
  get_language :: "py_exn option"
  read_file :: "string \<Rightarrow> py_exn + string"
  query_error :: "string \<Rightarrow> py_exn option"
  captures :: "string \<Rightarrow> string \<Rightarrow> capture list"
  mkdir :: "string \<Rightarrow> py_exn option"
  chat_ollama :: "string \<Rightarrow> py_exn option"
  chain_invoke :: "code_structure \<Rightarrow> py_exn + unicode"
  json_loads :: "unicode \<Rightarrow> py_exn + json"
  source_new :: "json \<Rightarrow> py_exn option"
  render :: "graph \<Rightarrow> path \<Rightarrow> py_exn option"
  path_stem :: "string \<Rightarrow> string"

section \<open>Effects: an event log and an exception or a value\<close>

type_synonym 'a run = "event list \<times> (py_exn + 'a)"

definition ret :: "'a \<Rightarrow> 'a run" where
  "ret x = ([], Inr x)"

definition run_raise :: "py_exn \<Rightarrow> 'a run" where
  "run_raise e = ([], Inl e)"

definition emit :: "event \<Rightarrow> unit run" where
  "emit ev = ([ev], Inr ())"

definition run_bind :: "'a run \<Rightarrow> ('a \<Rightarrow> 'b run) \<Rightarrow> 'b run" where
  "run_bind m f =
     (case m of
        (l, Inl e) \<Rightarrow> (l, Inl e)
      | (l, Inr x) \<Rightarrow> (case f x of (l', r) \<Rightarrow> (l @ l', r)))"

definition run_then :: "'a run \<Rightarrow> 'b run \<Rightarrow> 'b run" where
  "run_then m k = run_bind m (\<lambda>_. k)"

text \<open>
  \<^verbatim>\<open>try: m except ...\<close>: the handler gives \<open>None\<close> for an exception that no
  \<^verbatim>\<open>except\<close> clause matches, which then propagates.
\<close>

definition run_try :: "'a run \<Rightarrow> (py_exn \<Rightarrow> 'a run option) \<Rightarrow> 'a run" where
  "run_try m h =
     (case m of
        (l, Inr x) \<Rightarrow> (l, Inr x)
      | (l, Inl e) \<Rightarrow>
          (case h e of
             None \<Rightarrow> (l, Inl e)
           | Some k \<Rightarrow> (case k of (l', r) \<Rightarrow> (l @ l', r))))"

text \<open>A library call that either succeeds or raises.\<close>

definition lib_call :: "py_exn option \<Rightarrow> unit run" where
  "lib_call r = (case r of None \<Rightarrow> ret () | Some e \<Rightarrow> run_raise e)"

section \<open>CodeAnalyzer\<close>


text \<open>The two query texts of \<^verbatim>\<open>analyze\<close>, character by character.\<close>

definition func_query :: string where
  "func_query = ''(function_definition name: (identifier) @function.name)''"

definition call_query :: string where
  "call_query =
     [CHR 0x0A] @
     ''        (function_definition'' @
     [CHR 0x0A] @
     ''            name: (identifier) @function.name'' @
     [CHR 0x0A] @
     ''            body: (_'' @
     [CHR 0x0A] @
     ''                (call'' @
     [CHR 0x0A] @
     ''                    function: (attribute attribute: (identifier) @method.name) '' @
     [CHR 0x0A] @
     ''                ) @call'' @
     [CHR 0x0A] @
     ''                |'' @
     [CHR 0x0A] @
     ''                (call '' @
     [CHR 0x0A] @
     ''                    function: (identifier) @function.call'' @
     [CHR 0x0A] @
     ''                ) @call'' @
     [CHR 0x0A] @
     ''            )'' @
     [CHR 0x0A] @
     ''        )'' @
     [CHR 0x0A] @
     ''        ''"

text \<open>
  \<^verbatim>\<open>self.language.query(query_string)\<close> compiles the query text and raises on a text
  that is not in tree-sitter's query language. That language writes an alternation
  as \<^verbatim>\<open>[ ... ]\<close> and has no token \<^verbatim>\<open>|\<close>: a \<^verbatim>\<open>|\<close> outside a string literal and outside a
  comment is a syntax error at its offset. This is the one syntax error modelled;
  \<open>first_bar\<close> finds the offset, reading string literals (with backslash escapes) and
  comments (from \<^verbatim>\<open>;\<close> to the end of the line) as the query language does.
\<close>

datatype scan_mode = In_code | In_string | In_escape | In_comment | At_bar

definition scan_char :: "scan_mode \<Rightarrow> char \<Rightarrow> scan_mode" where
  "scan_char m c =
     (case m of
        In_code \<Rightarrow>
          (if c = CHR ''|'' then At_bar
           else if c = CHR 0x22 then In_string
           else if c = CHR '';'' then In_comment
           else In_code)
      | In_string \<Rightarrow>
          (if c = CHR 0x5C then In_escape
           else if c = CHR 0x22 then In_code
           else In_string)
      | In_escape \<Rightarrow> In_string
      | In_comment \<Rightarrow> (if c = CHR 0x0A then In_code else In_comment)
      | At_bar \<Rightarrow> At_bar)"

primrec first_bar :: "string \<Rightarrow> scan_mode \<Rightarrow> nat \<Rightarrow> nat option" where
  "first_bar [] m n = None"
| "first_bar (c # cs) m n =
     (if scan_char m c = At_bar then Some n else first_bar cs (scan_char m c) (Suc n))"

definition language_query :: "env \<Rightarrow> string \<Rightarrow> py_exn + string" where
  "language_query env query_string =
     (case first_bar query_string In_code 0 of
        Some n \<Rightarrow> Inl (SyntaxError n)
      | None \<Rightarrow>
          (case query_error env query_string of
             Some e \<Rightarrow> Inl e
           | None \<Rightarrow> Inr query_string))"

text \<open>
  \<^verbatim>\<open>_execute_query\<close>; the tree is given by the text it was parsed from
  (\<^verbatim>\<open>parser.parse\<close> never fails), a compiled query by its text.
\<close>

definition execute_query :: "env \<Rightarrow> string \<Rightarrow> string \<Rightarrow> py_exn + capture list" where
  "execute_query env tree query_string =
     (case language_query env query_string of
        Inl e \<Rightarrow> Inl e
      | Inr query \<Rightarrow> Inr (captures env tree query))"

text \<open>The structure that \<^verbatim>\<open>analyze\<close> starts from (lines 51 to 55).\<close>

definition new_structure :: code_structure where
  "new_structure = \<lparr>functions_map = [], classes = [], global_calls = []\<rparr>"

text \<open>
  The first loop of \<^verbatim>\<open>analyze\<close> (lines 60 to 63), over the captures of the definition
  query: \<^verbatim>\<open>structure["functions"][func_name] = {"calls": []}\<close> for each capture named
  \<^verbatim>\<open>function.name\<close>.
\<close>

primrec register_functions :: "capture list \<Rightarrow> code_structure \<Rightarrow> code_structure" where
  "register_functions [] structure = structure"
| "register_functions (cap # caps) structure =
     (if snd cap = ''function.name''
      then register_functions caps
             (structure\<lparr>functions_map :=
                dict_set (fst cap) [(''calls'', [])] (functions_map structure)\<rparr>)
      else register_functions caps structure)"

text \<open>
  \<^verbatim>\<open>structure["functions"][current_func]["calls"].append(call_name)\<close>, on the functions
  dictionary: both subscripts raise \<^verbatim>\<open>KeyError\<close> on a missing key.
\<close>

definition append_call ::
  "string \<Rightarrow> string \<Rightarrow> (string, entry) dict \<Rightarrow> py_exn + (string, entry) dict" where
  "append_call current_func call_name fs =
     (case map_of fs current_func of
        None \<Rightarrow> Inl (KeyError current_func)
      | Some d \<Rightarrow>
          (case map_of d ''calls'' of
             None \<Rightarrow> Inl (KeyError ''calls'')
           | Some cs \<Rightarrow>
               Inr (dict_set current_func (dict_set ''calls'' (cs @ [call_name]) d) fs)))"

text \<open>
  The body of the second loop of \<^verbatim>\<open>analyze\<close> (lines 83 to 88), on the loop state
  (\<^verbatim>\<open>current_func\<close>, \<^verbatim>\<open>structure\<close>). The test \<^verbatim>\<open>and current_func\<close> is Python
  truthiness: \<^verbatim>\<open>None\<close> and the empty string fail it.
\<close>

definition record_call ::
  "capture \<Rightarrow> string option \<Rightarrow> code_structure \<Rightarrow> py_exn + (string option \<times> code_structure)" where
  "record_call cap current_func structure =
     (case cap of (text, cname) \<Rightarrow>
        if cname = ''function.name'' then Inr (Some text, structure)
        else if cname \<in> set [''function.call'', ''method.name'']
                \<and> current_func \<noteq> None \<and> current_func \<noteq> Some [] then
          (if dict_has (the current_func) (functions_map structure) then
             (case append_call (the current_func) text (functions_map structure) of
                Inl e \<Rightarrow> Inl e
              | Inr fs \<Rightarrow> Inr (current_func, structure\<lparr>functions_map := fs\<rparr>))
           else Inr (current_func, structure))
        else Inr (current_func, structure))"

text \<open>
  The second loop (lines 81 to 88), over the captures of the call query: the body on
  each capture in order, until one raises.
\<close>

primrec record_calls ::
  "capture list \<Rightarrow> string option \<Rightarrow> code_structure \<Rightarrow> py_exn + code_structure" where
  "record_calls [] current_func structure = Inr structure"
| "record_calls (cap # caps) current_func structure =
     (case record_call cap current_func structure of
        Inl e \<Rightarrow> Inl e
      | Inr st \<Rightarrow> record_calls caps (fst st) (snd st))"

text \<open>
  \<^verbatim>\<open>analyze\<close>: only \<^verbatim>\<open>FileNotFoundError\<close> is caught; the result \<open>None\<close> is Python's
  \<^verbatim>\<open>None\<close>. An exception of either \<^verbatim>\<open>_execute_query\<close> call leaves \<^verbatim>\<open>analyze\<close>.
\<close>

definition analyze :: "env \<Rightarrow> string \<Rightarrow> code_structure option run" where
  "analyze env file_path =
     (case read_file env file_path of
        Inl e \<Rightarrow>
          (if e = FileNotFoundError
           then run_then (emit (Print_file_not_found file_path)) (ret None)
           else run_raise e)
      | Inr code \<Rightarrow>
          (case execute_query env code func_query of
             Inl e \<Rightarrow> run_raise e
           | Inr function_caps \<Rightarrow>
               (let structure = register_functions function_caps new_structure in
                case execute_query env code call_query of
                  Inl e \<Rightarrow> run_raise e
                | Inr call_caps \<Rightarrow>
                    (case record_calls call_caps None structure of
                       Inl e \<Rightarrow> run_raise e
                     | Inr structure' \<Rightarrow> ret (Some structure')))))"

section \<open>RefactorSuggester\<close>


text \<open>
  \<^verbatim>\<open>str.strip()\<close> removes the leading and trailing whitespace characters; these are
  the code points for which \<^verbatim>\<open>str.isspace\<close> holds.
\<close>

definition is_space :: "nat \<Rightarrow> bool" where
  "is_space c =
     (c \<in> set ([0x09, 0x0A, 0x0B, 0x0C, 0x0D, 0x1C, 0x1D, 0x1E, 0x1F, 0x20, 0x85, 0xA0,
                0x1680] @ [0x2000 ..< 0x200B] @ [0x2028, 0x2029, 0x202F, 0x205F, 0x3000]))"

definition strip :: "unicode \<Rightarrow> unicode" where
  "strip s = rev (dropWhile is_space (rev (dropWhile is_space s)))"

text \<open>
  \<^verbatim>\<open>suggest\<close>. The two \<^verbatim>\<open>replace("", "")\<close> calls of the source replace the empty
  string by itself and leave the text as it is. The value of \<^verbatim>\<open>json.loads\<close> is
  returned as it comes; \<^verbatim>\<open>JSONDecodeError\<close> gives \<^verbatim>\<open>None\<close>, and any other exception
  of \<^verbatim>\<open>json.loads\<close> leaves \<^verbatim>\<open>suggest\<close>.
\<close>

definition suggest :: "env \<Rightarrow> code_structure \<Rightarrow> json run" where
  "suggest env code_structure =
     run_then (emit Print_asking)
       (run_then (emit (Chain_invoke code_structure))
          (case chain_invoke env code_structure of
             Inl e \<Rightarrow> run_raise e
           | Inr response \<Rightarrow>
               (let clean_response = strip response in
                case json_loads env clean_response of
                  Inr j \<Rightarrow> ret j
                | Inl e \<Rightarrow>
                    (if e = JSONDecodeError
                     then run_then (emit (Print_decode_error response)) (ret JNull)
                     else run_raise e))))"

section \<open>ArchitectureVisualizer\<close>


definition render_graph :: "env \<Rightarrow> string \<Rightarrow> graph \<Rightarrow> string \<Rightarrow> unit run" where
  "render_graph env output_dir g filename =
     (let output_path = (output_dir, filename) in
      run_try
        (run_then (emit (Render_call g output_path))
           (run_then (lib_call (render env g output_path))
              (emit (Print_diagram_saved output_path))))
        (\<lambda>e. if e = ExecutableNotFound
              then Some (run_then (emit Print_graphviz_missing) (run_raise (SystemExit 1)))
              else if is_Exception e then Some (emit (Print_render_error e))
              else None))"

definition attr :: "string option \<Rightarrow> (string \<times> string) list \<Rightarrow> digraph \<Rightarrow> digraph" where
  "attr kw attrs dot = dot\<lparr>body := body dot @ [Attr_stmt kw attrs]\<rparr>"

definition node :: "string \<Rightarrow> string \<Rightarrow> digraph \<Rightarrow> digraph" where
  "node nm label dot = dot\<lparr>body := body dot @ [Node_stmt nm label]\<rparr>"

definition edge :: "string \<Rightarrow> string \<Rightarrow> digraph \<Rightarrow> digraph" where
  "edge tail_name head_name dot = dot\<lparr>body := body dot @ [Edge_stmt tail_name head_name]\<rparr>"

text \<open>\<^verbatim>\<open>details.get('calls', [])\<close>.\<close>

definition get_calls :: "entry \<Rightarrow> string list" where
  "get_calls details = (case map_of details ''calls'' of None \<Rightarrow> [] | Some cs \<Rightarrow> cs)"

text \<open>The inner loop of \<^verbatim>\<open>generate_from_structure\<close>, over the calls of one function.\<close>

fun add_edges :: "(string, entry) dict \<Rightarrow> string \<Rightarrow> string list \<Rightarrow> digraph \<Rightarrow> digraph" where
  "add_edges fs func [] dot = dot"
| "add_edges fs func (call # calls) dot =
     (if dict_has call fs then add_edges fs func calls (edge func call dot)
      else add_edges fs func calls dot)"

text \<open>The outer loop, over the items of the functions dictionary.\<close>

fun add_functions ::
  "(string, entry) dict \<Rightarrow> (string \<times> entry) list \<Rightarrow> digraph \<Rightarrow> digraph" where
  "add_functions fs [] dot = dot"
| "add_functions fs ((func, details) # items) dot =
     add_functions fs items
       (add_edges fs func (get_calls details) (node func (func @ ''()'') dot))"

text \<open>The graph that \<^verbatim>\<open>generate_from_structure\<close> has built when it tests \<^verbatim>\<open>dot.body\<close>.\<close>

definition structure_dot :: "code_structure \<Rightarrow> digraph" where
  "structure_dot code_structure =
     add_functions (functions_map code_structure) (functions_map code_structure)
       (attr None [(''label'', ''Original Architecture''), (''labelloc'', ''t''),
                   (''fontsize'', ''16'')]
          (attr (Some ''node'') [(''shape'', ''box''), (''style'', ''rounded'')]
             \<lparr>name = ''Legacy_Architecture'', comment = ''Original Code Structure'',
              body = []\<rparr>))"

definition generate_from_structure ::
  "env \<Rightarrow> string \<Rightarrow> code_structure \<Rightarrow> string \<Rightarrow> unit run" where
  "generate_from_structure env output_dir code_structure filename =
     (let dot = structure_dot code_structure in
      if body dot = [] then emit Print_no_functions
      else render_graph env output_dir (Digraph dot) filename)"

definition generate_from_dot_string :: "env \<Rightarrow> string \<Rightarrow> json \<Rightarrow> string \<Rightarrow> unit run" where
  "generate_from_dot_string env output_dir dot_string filename =
     run_try
       (run_then (lib_call (source_new env dot_string))
          (render_graph env output_dir (Source dot_string) filename))
       (\<lambda>e. if is_Exception e then Some (emit (Print_dot_error e dot_string)) else None)"

section \<open>main\<close>

text \<open>\<^verbatim>\<open>suggestion.get(key, default)\<close>: only a dictionary has \<^verbatim>\<open>get\<close>.\<close>

definition py_get :: "json \<Rightarrow> string \<Rightarrow> json \<Rightarrow> json run" where
  "py_get j key dflt =
     (case j of
        JObj kvs \<Rightarrow> ret (case map_of kvs key of None \<Rightarrow> dflt | Some v \<Rightarrow> v)
      | _ \<Rightarrow> run_raise (AttributeError ''get''))"

fun emit_all :: "event list \<Rightarrow> unit run" where
  "emit_all [] = ret ()"
| "emit_all (ev # evs) = run_then (emit ev) (emit_all evs)"

text \<open>Steps 4 and 5 of \<^verbatim>\<open>main\<close>, for a truthy suggestion.\<close>

definition report_suggestion :: "env \<Rightarrow> string \<Rightarrow> string \<Rightarrow> json \<Rightarrow> unit run" where
  "report_suggestion env visualizer target_name suggestion =
     run_then (emit Print_suggestion_header)
    (run_bind (py_get suggestion ''summary'' (JStr ''N/A'')) (\<lambda>summary.
     run_then (emit (Print_summary summary))
    (run_then (emit Print_reasoning_header)
    (run_bind (py_get suggestion ''reasoning'' (JList [JStr ''N/A''])) (\<lambda>reasoning.
     run_then (case reasoning of
                 JList points \<Rightarrow> emit_all (map Print_point points)
               | _ \<Rightarrow> emit (Print_reasoning reasoning))
    (run_then (emit Print_rule)
    (run_bind (py_get suggestion ''new_architecture_dot'' JNull) (\<lambda>dot_string.
     if truthy dot_string
     then run_then (emit Print_generating_after)
            (generate_from_dot_string env visualizer dot_string (target_name @ ''_after''))
     else emit Print_no_dot_warning))))))))"


section \<open>Specification-side definitions and sample inputs\<close>

text \<open>
  The callee names that belong to function \<open>f\<close> in a capture sequence: those captured
  while the most recent \<^verbatim>\<open>function.name\<close> capture is \<open>f\<close>. This is the reference
  against which the calls recorded by \<open>record_calls\<close> are compared.
\<close>

primrec attributed :: "string \<Rightarrow> capture list \<Rightarrow> string option \<Rightarrow> string list" where
  "attributed f [] current_func = []"
| "attributed f (cap # caps) current_func =
     (if snd cap = ''function.name'' then attributed f caps (Some (fst cap))
      else if snd cap \<in> set [''function.call'', ''method.name'']
              \<and> current_func = Some f \<and> f \<noteq> []
      then fst cap # attributed f caps current_func
      else attributed f caps current_func)"


text \<open>
  A sample run: the file \<^verbatim>\<open>legacy.py\<close> holds \<^verbatim>\<open>def a(): b(); b(); print()\<close>, every
  other path is missing, the definition query captures the name \<^verbatim>\<open>a\<close>, the language
  model answers with a JSON object that has only the field \<^verbatim>\<open>summary\<close>, and the
  renderer succeeds.
\<close>

definition sample_response :: unicode where
  \<open>sample_response = py_str ''{"summary": "x"}''\<close>

definition sample_env :: env where
  "sample_env =
     \<lparr>get_language = None,
      read_file = (\<lambda>p. if p = ''legacy.py'' then Inr ''def a(): b(); b(); print()''
                        else Inl FileNotFoundError),
      query_error = (\<lambda>q. None),
      captures = (\<lambda>code q. if q = func_query then [(''a'', ''function.name'')] else []),
      mkdir = (\<lambda>d. None),
      chat_ollama = (\<lambda>m. None),
      chain_invoke = (\<lambda>s. Inr sample_response),
      json_loads = (\<lambda>t. if t = sample_response then Inr (JObj [(''summary'', JStr ''x'')])
                         else Inl JSONDecodeError),
      source_new = (\<lambda>d. None),
      render = (\<lambda>g p. None),
      path_stem = (\<lambda>p. takeWhile (\<lambda>c. c \<noteq> CHR ''.'') p)\<rparr>"


text \<open>The same run with an answer of the language model that is not JSON.\<close>

definition env_not_json :: env where
  "env_not_json = sample_env\<lparr>chain_invoke := (\<lambda>s. Inr (py_str ''Here is my suggestion''))\<rparr>"

text \<open>The same run with a renderer that rejects the graph description.\<close>

definition env_render_fails :: env where
  "env_render_fails =
     sample_env\<lparr>render := (\<lambda>g p. Some (CalledProcessError ''syntax error in line 1''))\<rparr>"

section \<open>Dictionaries\<close>










section \<open>The queries of analyze\<close>

lemma func_query_compiles: "first_bar func_query In_code 0 = None"
  by (simp add: func_query_def scan_char_def)

lemma call_query_bar: "first_bar call_query In_code 0 = Some 239"
  by (simp add: call_query_def scan_char_def)

lemma execute_call_query: "execute_query env tree call_query = Inl (SyntaxError 239)"
  by (simp add: execute_query_def language_query_def call_query_bar)

lemma execute_func_query:
  "execute_query env tree func_query =
     (case query_error env func_query of
        Some e \<Rightarrow> Inl e
      | None \<Rightarrow> Inr (captures env tree func_query))"
  by (simp add: execute_query_def language_query_def func_query_compiles split: option.splits)

lemma analyze_readable:
  "read_file env p = Inr code \<Longrightarrow>
   analyze env p =
     ([], Inl (case query_error env func_query of Some e \<Rightarrow> e | None \<Rightarrow> SyntaxError 239))"
  by (cases "query_error env func_query")
     (simp_all add: analyze_def execute_call_query execute_func_query run_raise_def Let_def)

section \<open>The two loops of analyze\<close>














lemma attributed_prefix:
  "\<forall>cap \<in> set pre. snd cap \<noteq> ''function.name'' \<Longrightarrow>
   attributed f (pre @ rest) None = attributed f rest None"
  by (induction pre) simp_all








section \<open>The graph built by generate_from_structure\<close>

lemma body_add_edges:
  "body (add_edges fs f cs dot) =
     body dot @ map (Edge_stmt f) (filter (\<lambda>c. dict_has c fs) cs)"
  by (induction cs arbitrary: dot) (simp_all add: edge_def)

lemma body_add_functions:
  "body (add_functions fs items dot) =
     body dot @
     concat (map (\<lambda>p. Node_stmt (fst p) (fst p @ ''()'') #
                       map (Edge_stmt (fst p))
                         (filter (\<lambda>c. dict_has c fs) (get_calls (snd p)))) items)"
  by (induction fs items dot rule: add_functions.induct)
     (simp_all add: body_add_edges node_def)

lemma body_structure_dot:
  "body (structure_dot s) =
     [Attr_stmt (Some ''node'') [(''shape'', ''box''), (''style'', ''rounded'')],
      Attr_stmt None [(''label'', ''Original Architecture''), (''labelloc'', ''t''),
                      (''fontsize'', ''16'')]] @
     concat (map (\<lambda>p. Node_stmt (fst p) (fst p @ ''()'') #
                       map (Edge_stmt (fst p))
                         (filter (\<lambda>c. dict_has c (functions_map s)) (get_calls (snd p))))
               (functions_map s))"
  by (simp add: structure_dot_def body_add_functions attr_def)

lemma edge_in_body:
  "Edge_stmt f c \<in> set (body (structure_dot s)) \<longleftrightarrow>
     (\<exists>d. (f, d) \<in> set (functions_map s) \<and> c \<in> set (get_calls d))
     \<and> dict_has c (functions_map s)"
  by (force simp: body_structure_dot)

lemma node_in_body:
  "Node_stmt f l \<in> set (body (structure_dot s)) \<longleftrightarrow>
     (\<exists>d. (f, d) \<in> set (functions_map s)) \<and> l = f @ ''()''"
  by (force simp: body_structure_dot)

lemma count_list_map_Edge:
  "count_list (map (Edge_stmt a) cs) (Edge_stmt a' b) = (if a = a' then count_list cs b else 0)"
  by (induction cs) auto

lemma count_list_filter_keep: "P b \<Longrightarrow> count_list (filter P cs) b = count_list cs b"
  by (induction cs) auto

lemma count_list_concat: "count_list (concat xss) x = sum_list (map (\<lambda>xs. count_list xs x) xss)"
  by (induction xss) (simp_all)

lemma sum_list_single_key:
  "distinct (map fst items) \<Longrightarrow> map_of items a = Some d \<Longrightarrow>
   sum_list (map (\<lambda>p. if fst p = a then g (snd p) else (0::nat)) items) = g d"
proof (induction items)
  case Nil
  then show ?case by simp
next
  case (Cons p items)
  show ?case
  proof (cases "fst p = a")
    case True
    with Cons.prems have "snd p = d" and "a \<notin> fst ` set items" by (cases p; auto)+
    then have "sum_list (map (\<lambda>p. if fst p = a then g (snd p) else (0::nat)) items) = 0"
      by auto
    with True \<open>snd p = d\<close> show ?thesis by simp
  next
    case False
    with Cons show ?thesis by (cases p) auto
  qed
qed

lemma edge_count:
  assumes "distinct (dict_keys (functions_map s))"
    and "map_of (functions_map s) a = Some d"
    and "dict_has b (functions_map s)"
  shows "count_list (body (structure_dot s)) (Edge_stmt a b) = count_list (get_calls d) b"
proof -
  have "count_list (body (structure_dot s)) (Edge_stmt a b) =
      sum_list (map (\<lambda>p. if fst p = a then count_list (get_calls (snd p)) b else 0)
        (functions_map s))"
    using assms(3)
    by (simp add: body_structure_dot count_list_concat comp_def count_list_map_Edge
        count_list_filter_keep cong: if_cong)
  also have "\<dots> = count_list (get_calls d) b"
    using assms(1,2) sum_list_single_key[of "functions_map s" a d "\<lambda>d. count_list (get_calls d) b"]
    by (simp add: dict_keys_def)
  finally show ?thesis .
qed

section \<open>Runs of the analyzer, the suggester and main\<close>

lemmas run_defs = run_try_def run_then_def run_bind_def emit_def lib_call_def ret_def
  run_raise_def Let_def




lemma strip_sample_response: "strip sample_response = sample_response"
  by (simp add: strip_def sample_response_def py_str_def is_space_def)

lemma strip_not_json: "strip (py_str ''Here is my suggestion'') = py_str ''Here is my suggestion''"
  by (simp add: strip_def py_str_def is_space_def)

lemma sample_response_neq: "py_str ''Here is my suggestion'' \<noteq> sample_response"
  by (simp add: sample_response_def py_str_def)

section \<open>Claims about the two loops of analyze\<close>

text \<open>
  In the program as it stands the second loop is not reached: by \<open>analyze_readable\<close>,
  \<^verbatim>\<open>analyze\<close> leaves every readable file with the syntax error of the call query. The
  claims of this section are about the two loops themselves, on the capture sequences
  they are given.
\<close>









section \<open>Claims about generate_from_structure\<close>

text \<open>
  Claim C2, at the structure with no functions. The two \<^verbatim>\<open>dot.attr\<close> calls have
  already put two statements into \<^verbatim>\<open>dot.body\<close>, so the test \<^verbatim>\<open>not dot.body\<close> fails:
  no node is emitted, but nothing-to-draw is not reported and the first thing
  \<^verbatim>\<open>generate_from_structure\<close> does to the outside is the call of the renderer.
\<close>

theorem empty_structure_is_rendered:
  "body (structure_dot \<lparr>functions_map = [], classes = [], global_calls = []\<rparr>) =
     [Attr_stmt (Some ''node'') [(''shape'', ''box''), (''style'', ''rounded'')],
      Attr_stmt None [(''label'', ''Original Architecture''), (''labelloc'', ''t''),
                      (''fontsize'', ''16'')]]
   \<and> fst (generate_from_structure env output_dir
             \<lparr>functions_map = [], classes = [], global_calls = []\<rparr> filename)
       \<noteq> [Print_no_functions]
   \<and> hd (fst (generate_from_structure env output_dir
                 \<lparr>functions_map = [], classes = [], global_calls = []\<rparr> filename)) =
       Render_call
         (Digraph (structure_dot \<lparr>functions_map = [], classes = [], global_calls = []\<rparr>))
         (output_dir, filename)"
  by (cases "render env
        (Digraph (structure_dot \<lparr>functions_map = [], classes = [], global_calls = []\<rparr>))
        (output_dir, filename)")
     (simp_all add: generate_from_structure_def body_structure_dot render_graph_def
        run_try_def run_then_def run_bind_def emit_def lib_call_def ret_def run_raise_def
        Let_def)

text \<open>
  Claim C3. For every structure, the graph holds the edge from \<open>f\<close> to \<open>c\<close> exactly
  when \<open>c\<close> is among the calls of an entry of \<open>f\<close> and \<open>c\<close> is a key of the functions
  dictionary. So for an entry \<open>(f, d)\<close> with \<open>c\<close> among the calls of \<open>d\<close>, the edge is
  there if and only if \<open>c\<close> is a key; and when \<open>c\<close> is not a key, the graph has neither
  an edge to \<open>c\<close> nor a node for it, while \<open>c\<close> is in the calls of \<open>d\<close> in the
  structure.
\<close>

theorem edge_iff_defined_callee:
  "(Edge_stmt f c \<in> set (body (structure_dot s)) \<longleftrightarrow>
      (\<exists>d. (f, d) \<in> set (functions_map s) \<and> c \<in> set (get_calls d))
      \<and> dict_has c (functions_map s))
   \<and> ((f, d) \<in> set (functions_map s) \<and> c \<in> set (get_calls d) \<longrightarrow>
        (Edge_stmt f c \<in> set (body (structure_dot s)) \<longleftrightarrow> dict_has c (functions_map s)))
   \<and> ((f, d) \<in> set (functions_map s) \<and> c \<in> set (get_calls d)
        \<and> \<not> dict_has c (functions_map s) \<longrightarrow>
        Edge_stmt f c \<notin> set (body (structure_dot s))
        \<and> (\<forall>l. Node_stmt c l \<notin> set (body (structure_dot s)))
        \<and> c \<in> set (get_calls d))"
  by (auto simp: edge_in_body node_in_body dict_has_def dict_keys_def intro: rev_image_eqI)

text \<open>
  The theorem for C3 at a function \<^verbatim>\<open>a\<close> that calls \<^verbatim>\<open>b\<close>, which is defined, and
  \<^verbatim>\<open>foo\<close>, which is not.
\<close>

theorem edge_iff_defined_callee_witness:
  "(''a'', [(''calls'', [''b'', ''foo''])])
       \<in> set (functions_map
            \<lparr>functions_map = [(''a'', [(''calls'', [''b'', ''foo''])]), (''b'', [(''calls'', [])])],
             classes = [], global_calls = []\<rparr>)
   \<and> ''foo'' \<in> set (get_calls [(''calls'', [''b'', ''foo''])])
   \<and> \<not> dict_has ''foo'' (functions_map
            \<lparr>functions_map = [(''a'', [(''calls'', [''b'', ''foo''])]), (''b'', [(''calls'', [])])],
             classes = [], global_calls = []\<rparr>)
   \<and> Edge_stmt ''a'' ''foo''
       \<notin> set (body (structure_dot
            \<lparr>functions_map = [(''a'', [(''calls'', [''b'', ''foo''])]), (''b'', [(''calls'', [])])],
             classes = [], global_calls = []\<rparr>))
   \<and> Edge_stmt ''a'' ''b''
       \<in> set (body (structure_dot
            \<lparr>functions_map = [(''a'', [(''calls'', [''b'', ''foo''])]), (''b'', [(''calls'', [])])],
             classes = [], global_calls = []\<rparr>))"
proof -
  let ?T = "\<lparr>functions_map = [(''a'', [(''calls'', [''b'', ''foo''])]), (''b'', [(''calls'', [])])],
             classes = [], global_calls = []\<rparr>"
  let ?d = "[(''calls'', [''b'', ''foo''])]"
  have m: "(''a'', ?d) \<in> set (functions_map ?T)" by simp
  have c1: "''foo'' \<in> set (get_calls ?d)" and c2: "''b'' \<in> set (get_calls ?d)"
    by (simp_all add: get_calls_def)
  have nk: "\<not> dict_has ''foo'' (functions_map ?T)" and k: "dict_has ''b'' (functions_map ?T)"
    by (simp_all add: dict_has_def dict_keys_def)
  from edge_iff_defined_callee[of "''a''" "''foo''" ?T ?d] m c1 nk
  have e1: "Edge_stmt ''a'' ''foo'' \<notin> set (body (structure_dot ?T))" by blast
  from edge_iff_defined_callee[of "''a''" "''b''" ?T ?d] m c2 k
  have e2: "Edge_stmt ''a'' ''b'' \<in> set (body (structure_dot ?T))" by blast
  from m c1 nk e1 e2 show ?thesis by simp
qed

text \<open>
  Claim C4, as the code has it. For functions \<open>a\<close> and \<open>b\<close> that are both keys of the
  functions dictionary, the graph description holds one edge from \<open>a\<close> to \<open>b\<close> for
  each occurrence of \<open>b\<close> in the calls of \<open>a\<close>: exactly one when \<open>a\<close> calls \<open>b\<close> once,
  and as many as there are calls otherwise.
\<close>

theorem edge_count_eq_call_count:
  assumes "distinct (dict_keys (functions_map s))"
    and "map_of (functions_map s) a = Some d"
    and "dict_has b (functions_map s)"
  shows "count_list (body (structure_dot s)) (Edge_stmt a b) = count_list (get_calls d) b"
  using assms by (rule edge_count)

text \<open>
  The theorem for C4 at a function \<^verbatim>\<open>a\<close> with the calls \<^verbatim>\<open>b\<close>, \<^verbatim>\<open>c\<close>, \<^verbatim>\<open>b\<close>.
\<close>

theorem edge_count_eq_call_count_witness:
  "distinct (dict_keys (functions_map
      \<lparr>functions_map = [(''a'', [(''calls'', [''b'', ''c'', ''b''])]), (''b'', [(''calls'', [])])],
       classes = [], global_calls = []\<rparr>))
   \<and> map_of (functions_map
      \<lparr>functions_map = [(''a'', [(''calls'', [''b'', ''c'', ''b''])]), (''b'', [(''calls'', [])])],
       classes = [], global_calls = []\<rparr>) ''a'' = Some [(''calls'', [''b'', ''c'', ''b''])]
   \<and> dict_has ''b'' (functions_map
      \<lparr>functions_map = [(''a'', [(''calls'', [''b'', ''c'', ''b''])]), (''b'', [(''calls'', [])])],
       classes = [], global_calls = []\<rparr>)
   \<and> count_list (body (structure_dot
      \<lparr>functions_map = [(''a'', [(''calls'', [''b'', ''c'', ''b''])]), (''b'', [(''calls'', [])])],
       classes = [], global_calls = []\<rparr>)) (Edge_stmt ''a'' ''b'') = 2"
proof -
  let ?S = "\<lparr>functions_map = [(''a'', [(''calls'', [''b'', ''c'', ''b''])]),
                               (''b'', [(''calls'', [])])],
            classes = [], global_calls = []\<rparr>"
  have d: "distinct (dict_keys (functions_map ?S))" by (simp add: dict_keys_def)
  have m: "map_of (functions_map ?S) ''a'' = Some [(''calls'', [''b'', ''c'', ''b''])]" by simp
  have k: "dict_has ''b'' (functions_map ?S)" by (simp add: dict_has_def dict_keys_def)
  from edge_count_eq_call_count[OF d m k]
  have "count_list (body (structure_dot ?S)) (Edge_stmt ''a'' ''b'') = 2"
    by (simp add: get_calls_def)
  with d m k show ?thesis by simp
qed

text \<open>
  C4 as stated fails: for \<^verbatim>\<open>a\<close> calling \<^verbatim>\<open>b\<close> twice, the graph description holds the
  edge from \<^verbatim>\<open>a\<close> to \<^verbatim>\<open>b\<close> twice.
\<close>

theorem repeated_call_two_edges:
  "count_list
     (body (structure_dot
        \<lparr>functions_map = [(''a'', [(''calls'', [''b'', ''b''])]), (''b'', [(''calls'', [])])],
         classes = [], global_calls = []\<rparr>))
     (Edge_stmt ''a'' ''b'') = 2"
  by (simp add: body_structure_dot get_calls_def dict_has_def dict_keys_def)

section \<open>Claims about failures\<close>




text \<open>
  Claim C7, as the code has it. When \<^verbatim>\<open>json.loads\<close> raises \<^verbatim>\<open>JSONDecodeError\<close> on
  the stripped response, \<^verbatim>\<open>suggest\<close> echoes the raw response and returns a failure
  (\<^verbatim>\<open>None\<close>); any other exception of \<^verbatim>\<open>json.loads\<close> leaves \<^verbatim>\<open>suggest\<close>; every
  response that decodes is returned as decoded, whatever fields it has.
\<close>

theorem suggest_fails_only_on_decode_error:
  "chain_invoke env s = Inr response \<Longrightarrow>
     (json_loads env (strip response) = Inl JSONDecodeError \<longrightarrow>
        suggest env s = ([Print_asking, Chain_invoke s, Print_decode_error response], Inr JNull))
   \<and> (\<forall>j. json_loads env (strip response) = Inr j \<longrightarrow>
        suggest env s = ([Print_asking, Chain_invoke s], Inr j))
   \<and> (\<forall>e. json_loads env (strip response) = Inl e \<and> e \<noteq> JSONDecodeError \<longrightarrow>
        suggest env s = ([Print_asking, Chain_invoke s], Inl e))"
  by (simp add: suggest_def run_defs)

text \<open>
  The theorem for C7 at a response that is not JSON.
\<close>

theorem suggest_fails_only_on_decode_error_witness:
  "chain_invoke env_not_json \<lparr>functions_map = [], classes = [], global_calls = []\<rparr> =
       Inr (py_str ''Here is my suggestion'')
   \<and> json_loads env_not_json (strip (py_str ''Here is my suggestion'')) = Inl JSONDecodeError
   \<and> suggest env_not_json \<lparr>functions_map = [], classes = [], global_calls = []\<rparr> =
       ([Print_asking, Chain_invoke \<lparr>functions_map = [], classes = [], global_calls = []\<rparr>,
         Print_decode_error (py_str ''Here is my suggestion'')], Inr JNull)"
proof -
  let ?s = "\<lparr>functions_map = [], classes = [], global_calls = []\<rparr>"
  have c: "chain_invoke env_not_json ?s = Inr (py_str ''Here is my suggestion'')"
    by (simp add: env_not_json_def)
  have j: "json_loads env_not_json (strip (py_str ''Here is my suggestion'')) = Inl JSONDecodeError"
    by (simp add: env_not_json_def sample_env_def strip_not_json sample_response_neq)
  from suggest_fails_only_on_decode_error[OF c] c j show ?thesis by simp
qed

text \<open>
  C7 as stated fails: a response with the single field \<^verbatim>\<open>summary\<close> is returned by
  \<^verbatim>\<open>suggest\<close> as a suggestion, and steps 4 and 5 of \<^verbatim>\<open>main\<close> print it with defaults
  for the two missing fields.
\<close>

theorem wrong_fields_accepted:
  "suggest sample_env \<lparr>functions_map = [], classes = [], global_calls = []\<rparr> =
     ([Print_asking, Chain_invoke \<lparr>functions_map = [], classes = [], global_calls = []\<rparr>],
      Inr (JObj [(''summary'', JStr ''x'')]))
   \<and> report_suggestion sample_env ''output'' ''legacy'' (JObj [(''summary'', JStr ''x'')]) =
     ([Print_suggestion_header, Print_summary (JStr ''x''), Print_reasoning_header,
       Print_point (JStr ''N/A''), Print_rule, Print_no_dot_warning], Inr ())"
  by (simp add: suggest_def report_suggestion_def py_get_def sample_env_def
      strip_sample_response run_defs)

text \<open>
  Claim C10, at a graph description that the renderer rejects. The handler of
  \<^verbatim>\<open>generate_from_dot_string\<close> would echo the offending text, but the exception of
  \<^verbatim>\<open>render\<close> is caught before, by the handler of \<^verbatim>\<open>_render_graph\<close>, which prints the
  exception only: the run ends normally and the text is not echoed.
\<close>

theorem render_error_without_text:
  "generate_from_dot_string env_render_fails ''output'' (JStr ''digraph {'') ''legacy_after'' =
     ([Render_call (Source (JStr ''digraph {'')) (''output'', ''legacy_after''),
       Print_render_error (CalledProcessError ''syntax error in line 1'')],
      Inr ())"
  by (simp add: generate_from_dot_string_def render_graph_def env_render_fails_def
      sample_env_def run_defs)

end
